theory Spec2Isabelle
  imports Complex_Main
begin

section \<open>JSON values\<close>

text \<open>
  The client exchanges JSON with the service and hands the decoded value to its caller
  as it is (a Python \<^verbatim>\<open>Dict[str, Any]\<close>). A decoded object is a Python dict: an
  association list here, in insertion order, read with \<open>map_of\<close>. The values are those
  that Python's decoder returns, so beside the finite floats there are \<^verbatim>\<open>nan\<close>,
  \<^verbatim>\<open>inf\<close> and \<^verbatim>\<open>-inf\<close>, which it returns for the tokens \<^verbatim>\<open>NaN\<close>, \<^verbatim>\<open>Infinity\<close> and
  \<^verbatim>\<open>-Infinity\<close> although they are not JSON.
\<close>

datatype json =
    JNull
  | JBool bool
  | JInt int
  | JFloat real
  | JNaN
  | JInfinity
  | JNegInfinity
  | JString string
  | JArray "json list"
  | JObject "(string \<times> json) list"

text \<open>
  The subscript \<^verbatim>\<open>d[key]\<close> with a string key, as the callers of the client use it
  (\<^verbatim>\<open>result['result']\<close>, \<^verbatim>\<open>status['memory']['total']\<close>): a dict without the
  key raises KeyError, every other JSON value raises TypeError.
\<close>

datatype lookup_error = KeyError string | TypeError

fun getitem :: "json \<Rightarrow> string \<Rightarrow> lookup_error + json" where
  "getitem (JObject kvs) k = (case map_of kvs k of None \<Rightarrow> Inl (KeyError k) | Some v \<Rightarrow> Inr v)"
| "getitem _ k = Inl TypeError"

section \<open>The HTTP library as the client sees it\<close>

text \<open>
  The client calls \<^verbatim>\<open>requests.post\<close> and \<^verbatim>\<open>requests.get\<close>. A request is what the
  client hands to the library: the verb, the URL string, the \<^verbatim>\<open>json=\<close> payload, the
  \<^verbatim>\<open>headers=\<close> dict and the \<^verbatim>\<open>timeout=\<close> in seconds. A keyword the call does not
  give is \<open>None\<close> for the payload and the empty list for the headers.
\<close>

datatype verb = GET | POST

record request =
  verb :: verb
  url :: string
  json :: "json option"
  headers :: "(string \<times> string) list"
  timeout :: nat

text \<open>
  A response object, as far as the client and its callers read it: \<^verbatim>\<open>status_code\<close>,
  \<^verbatim>\<open>reason\<close> and \<^verbatim>\<open>url\<close> (both used in the text of an HTTPError), and in \<open>body\<close>
  the value that the method \<^verbatim>\<open>json()\<close> returns for the body: \<open>None\<close> when the method
  raises instead of returning a value.
\<close>

record response =
  status_code :: int
  reason :: string
  response_url :: string
  body :: "json option"

text \<open>
  What happens to one call of the library (\<^verbatim>\<open>requests.get\<close>, \<^verbatim>\<open>requests.post\<close>): no
  response at all (connection refused, name resolution failed, the timeout expired), a
  URL that the library refuses before it sends anything (no scheme, a scheme it has no
  adapter for, no host), more redirects than the library follows, or a response: the last
  one, when the library has followed redirects. The library, the network and the remote
  service together are a function of the calls made so far and the present one, so the
  same call may be answered differently each time.
\<close>

datatype url_error = MissingSchema | InvalidSchema | InvalidURL

datatype outcome =
    ConnectionRefused
  | DNSFailure
  | TimeoutExpired
  | URLRefused url_error
  | RedirectsExceeded response
  | Responded response

type_synonym service = "request list \<Rightarrow> request \<Rightarrow> outcome"

text \<open>
  The exceptions of the library that can leave the client. An HTTPError carries the
  response it was raised for and TooManyRedirects the last redirect; the attribute
  \<^verbatim>\<open>e.response\<close> of the others is None. JSONDecodeError stands for every exception of
  \<^verbatim>\<open>json()\<close>: the library raises it for a body that is not JSON, and the other errors of
  the decoder (a ValueError for an integer literal beyond Python's digit limit) are not
  told apart from it here.
\<close>

datatype exn =
    ConnectionError
  | Timeout
  | URLError url_error
  | TooManyRedirects response
  | HTTPError string response
  | JSONDecodeError

fun exn_response :: "exn \<Rightarrow> response option" where
  "exn_response (HTTPError msg r) = Some r"
| "exn_response (TooManyRedirects r) = Some r"
| "exn_response _ = None"

fun exn_status :: "exn \<Rightarrow> int option" where
  "exn_status e = map_option status_code (exn_response e)"

text \<open>
  One call of the library: the request that the client hands over joins the list of
  calls made, and the outcome is a response or an exception. The list holds the calls of
  the library, one entry for each; the HTTP requests that the library sends for a call
  are the subject of the section on the wire.
\<close>

definition requests_request :: "service \<Rightarrow> request \<Rightarrow> request list \<Rightarrow> (exn + response) \<times> request list" where
  "requests_request srv req sent =
     ((case srv sent req of
         ConnectionRefused \<Rightarrow> Inl ConnectionError
       | DNSFailure \<Rightarrow> Inl ConnectionError
       | TimeoutExpired \<Rightarrow> Inl Timeout
       | URLRefused e \<Rightarrow> Inl (URLError e)
       | RedirectsExceeded r \<Rightarrow> Inl (TooManyRedirects r)
       | Responded r \<Rightarrow> Inr r),
      sent @ [req])"

definition requests_post ::
  "service \<Rightarrow> string \<Rightarrow> json \<Rightarrow> (string \<times> string) list \<Rightarrow> nat \<Rightarrow> request list \<Rightarrow> (exn + response) \<times> request list" where
  "requests_post srv u payload hs t =
     requests_request srv \<lparr>verb = POST, url = u, json = Some payload, headers = hs, timeout = t\<rparr>"

definition requests_get ::
  "service \<Rightarrow> string \<Rightarrow> nat \<Rightarrow> request list \<Rightarrow> (exn + response) \<times> request list" where
  "requests_get srv u t =
     requests_request srv \<lparr>verb = GET, url = u, json = None, headers = [], timeout = t\<rparr>"

text \<open>Python's \<^verbatim>\<open>str\<close> of an integer, for the status code in an HTTPError's text.\<close>

definition digit_char :: "nat \<Rightarrow> char" where
  "digit_char d = ''0123456789'' ! d"

function str_nat :: "nat \<Rightarrow> string" where
  "str_nat n = (if n < 10 then [digit_char n] else str_nat (n div 10) @ [digit_char (n mod 10)])"
  by pat_completeness auto
termination
  by (relation "measure id") auto

declare str_nat.simps [simp del]

definition str_int :: "int \<Rightarrow> string" where
  "str_int i = (if i < 0 then CHR ''-'' # str_nat (nat (- i)) else str_nat (nat i))"

text \<open>
  \<^verbatim>\<open>Response.raise_for_status()\<close>: an HTTPError for a status code from 400 to 599,
  with the library's text, and nothing for every other code. \<^verbatim>\<open>Response.json()\<close>:
  the value it returns, or the exception when it raises.
\<close>

definition raise_for_status :: "response \<Rightarrow> exn + unit" where
  "raise_for_status r =
     (if 400 \<le> status_code r \<and> status_code r < 500 then
        Inl (HTTPError (str_int (status_code r) @ '' Client Error: '' @ reason r
                          @ '' for url: '' @ response_url r) r)
      else if 500 \<le> status_code r \<and> status_code r < 600 then
        Inl (HTTPError (str_int (status_code r) @ '' Server Error: '' @ reason r
                          @ '' for url: '' @ response_url r) r)
      else Inr ())"

definition response_json :: "response \<Rightarrow> exn + json" where
  "response_json r = (case body r of None \<Rightarrow> Inl JSONDecodeError | Some v \<Rightarrow> Inr v)"

section \<open>The client\<close>

text \<open>
  \<^verbatim>\<open>str.rstrip(chars)\<close> removes every trailing character that is in \<open>chars\<close>.
\<close>

definition rstrip :: "string \<Rightarrow> string \<Rightarrow> string" where
  "rstrip s chars = rev (dropWhile (\<lambda>c. c \<in> set chars) (rev s))"

record HermesClient =
  base_url :: string

text \<open>
  Every operation takes the list of requests made so far and returns it with its own
  requests added; a raised exception is the \<open>Inl\<close> of the result.
  \<^verbatim>\<open>__init__\<close> stores \<^verbatim>\<open>base_url.rstrip("/")\<close>.
\<close>

definition default_base_url :: string where
  "default_base_url = ''http://localhost:4020''"

definition HermesClient_init :: "string \<Rightarrow> request list \<Rightarrow> HermesClient \<times> request list" where
  "HermesClient_init b sent = (\<lparr>base_url = rstrip b ''/''\<rparr>, sent)"

definition generate ::
  "service \<Rightarrow> HermesClient \<Rightarrow> string \<Rightarrow> string \<Rightarrow> request list \<Rightarrow> (exn + json) \<times> request list" where
  "generate srv self model prompt sent =
     (let u = base_url self @ ''/v1/llm/'' @ model;
          payload = JObject [(''prompt'', JString prompt)];
          (res, sent') = requests_post srv u payload [(''Content-Type'', ''application/json'')] 60 sent
      in case res of
           Inl e \<Rightarrow> (Inl e, sent')
         | Inr resp \<Rightarrow>
             (case raise_for_status resp of
                Inl e \<Rightarrow> (Inl e, sent')
              | Inr _ \<Rightarrow> (response_json resp, sent')))"

definition status ::
  "service \<Rightarrow> HermesClient \<Rightarrow> request list \<Rightarrow> (exn + json) \<times> request list" where
  "status srv self sent =
     (let u = base_url self @ ''/v1/status'';
          (res, sent') = requests_get srv u 10 sent
      in case res of
           Inl e \<Rightarrow> (Inl e, sent')
         | Inr resp \<Rightarrow>
             (case raise_for_status resp of
                Inl e \<Rightarrow> (Inl e, sent')
              | Inr _ \<Rightarrow> (response_json resp, sent')))"

section \<open>The library on the wire\<close>

text \<open>
  One call of the library can send several HTTP requests, or none. Before each request
  the library checks the URL and raises when it refuses it; nothing is sent then. A
  request that goes out gets no answer, or a response, here with the target that the
  library reads from its \<^verbatim>\<open>Location\<close> header, resolved against the URL of the request;
  \<open>None\<close> when the response has no such header or an empty one. The network is a
  function of the HTTP requests sent so far and the present one. A request on the wire
  is written like the call that caused it: the verb, the URL before the library prepares
  it, the payload, the headers that the client gave (those that the library adds are
  left out) and the timeout.
\<close>

datatype hop =
    Rejected url_error
  | Refused
  | Unresolved
  | Expired
  | Answered response "string option"

type_synonym wire = "request list \<Rightarrow> request \<Rightarrow> hop"

text \<open>
  The library follows redirects by default (\<^verbatim>\<open>allow_redirects\<close> is true for both
  calls of the client): a response with one of the codes 301, 302, 303, 307 and 308 and
  a \<^verbatim>\<open>Location\<close> header is answered with a further request. Codes 302 and 303 turn the
  verb into GET, and 301 turns POST into GET; unless the code is 307 or 308 the payload
  and its headers are dropped; the \<^verbatim>\<open>Cookie\<close> header is dropped on every redirect.
  Header names are compared as the client writes them, and the rule for the
  \<^verbatim>\<open>Authorization\<close> header, which the client never sends, is left out. After 30
  redirects the library raises TooManyRedirects for the next one.
\<close>

definition redirect_target :: "response \<Rightarrow> string option \<Rightarrow> string option" where
  "redirect_target r loc =
     (if status_code r = 301 \<or> status_code r = 302 \<or> status_code r = 303
         \<or> status_code r = 307 \<or> status_code r = 308
      then loc else None)"

definition rebuild_method :: "verb \<Rightarrow> int \<Rightarrow> verb" where
  "rebuild_method m code =
     (if code = 303 then GET
      else if code = 302 then GET
      else if code = 301 \<and> m = POST then GET
      else m)"

definition redirected :: "request \<Rightarrow> response \<Rightarrow> string \<Rightarrow> request" where
  "redirected q r target =
     (if status_code r = 307 \<or> status_code r = 308 then
        q\<lparr>verb := rebuild_method (verb q) (status_code r), url := target,
           headers := filter (\<lambda>kv. fst kv \<noteq> ''Cookie'') (headers q)\<rparr>
      else
        q\<lparr>verb := rebuild_method (verb q) (status_code r), url := target, json := None,
           headers := filter (\<lambda>kv. fst kv \<noteq> ''Content-Length'' \<and> fst kv \<noteq> ''Content-Type''
                                   \<and> fst kv \<noteq> ''Transfer-Encoding'' \<and> fst kv \<noteq> ''Cookie'')
                        (headers q)\<rparr>)"

definition max_redirects :: nat where
  "max_redirects = 30"

text \<open>
  One call of the library on the wire: the outcome of the call, and the HTTP requests
  sent so far with those of this call added. \<open>n\<close> is the number of redirects the
  library still follows.
\<close>

fun follow :: "wire \<Rightarrow> nat \<Rightarrow> request \<Rightarrow> request list \<Rightarrow> outcome \<times> request list" where
  "follow w n q h =
     (case w h q of
        Rejected e \<Rightarrow> (URLRefused e, h)
      | Refused \<Rightarrow> (ConnectionRefused, h @ [q])
      | Unresolved \<Rightarrow> (DNSFailure, h @ [q])
      | Expired \<Rightarrow> (TimeoutExpired, h @ [q])
      | Answered r loc \<Rightarrow>
          (case redirect_target r loc of
             None \<Rightarrow> (Responded r, h @ [q])
           | Some target \<Rightarrow>
               (case n of
                  0 \<Rightarrow> (RedirectsExceeded r, h @ [q])
                | Suc m \<Rightarrow> follow w m (redirected q r target) (h @ [q]))))"

declare follow.simps [simp del]

text \<open>
  The HTTP requests sent for a list of calls of the library, and the library over a
  network as a service: the outcome of a call, given the calls made before it.
\<close>

fun traffic_after :: "wire \<Rightarrow> request list \<Rightarrow> request list \<Rightarrow> request list" where
  "traffic_after w h [] = h"
| "traffic_after w h (q # qs) = traffic_after w (snd (follow w max_redirects q h)) qs"

definition traffic :: "wire \<Rightarrow> request list \<Rightarrow> request list" where
  "traffic w calls = traffic_after w [] calls"

definition library :: "wire \<Rightarrow> service" where
  "library w calls q = fst (follow w max_redirects q (traffic w calls))"

section \<open>Example services\<close>

text \<open>
  Services to run the client against: one that answers every request with the same
  status line and body, one that answers with a given response, one that answers the
  first request with one body and every later request with another, and one that never
  answers in time. \<open>moved_temporarily\<close> is a network on which the status endpoint
  answers with a redirect to another path and every other URL answers at once.
  \<open>localhost\<close> is the client of the example program.
\<close>

definition answers :: "int \<Rightarrow> string \<Rightarrow> json option \<Rightarrow> service" where
  "answers code rsn b sent req =
     Responded \<lparr>status_code = code, reason = rsn, response_url = url req, body = b\<rparr>"

definition replies :: "response \<Rightarrow> service" where
  "replies r sent req = Responded r"

definition answers_in_turn :: "json \<Rightarrow> json \<Rightarrow> service" where
  "answers_in_turn a b sent req =
     Responded \<lparr>status_code = 200, reason = ''OK'', response_url = url req,
                 body = Some (if sent = [] then a else b)\<rparr>"

definition never_answers :: service where
  "never_answers sent req = TimeoutExpired"

definition moved_temporarily :: wire where
  "moved_temporarily h q =
     (if url q = ''http://localhost:4020/v1/status'' then
        Answered \<lparr>status_code = 302, reason = ''Found'', response_url = url q, body = None\<rparr>
          (Some ''http://localhost:4020/v2/status'')
      else
        Answered \<lparr>status_code = 200, reason = ''OK'', response_url = url q,
                   body = Some (JObject [(''status'', JString ''ok'')])\<rparr>
          None)"

definition localhost :: HermesClient where
  "localhost = fst (HermesClient_init default_base_url [])"

section \<open>What one call does\<close>

text \<open>
  Both operations unfolded: the one request they hand to the library, and the result as
  a function of what happened to that request.
\<close>

lemma generate_eq:
  "generate srv self model prompt sent =
     ((case srv sent \<lparr>verb = POST, url = base_url self @ ''/v1/llm/'' @ model,
             json = Some (JObject [(''prompt'', JString prompt)]),
             headers = [(''Content-Type'', ''application/json'')], timeout = 60\<rparr> of
         ConnectionRefused \<Rightarrow> Inl ConnectionError
       | DNSFailure \<Rightarrow> Inl ConnectionError
       | TimeoutExpired \<Rightarrow> Inl Timeout
       | URLRefused e \<Rightarrow> Inl (URLError e)
       | RedirectsExceeded r \<Rightarrow> Inl (TooManyRedirects r)
       | Responded r \<Rightarrow> (case raise_for_status r of Inl e \<Rightarrow> Inl e | Inr u \<Rightarrow> response_json r)),
      sent @ [\<lparr>verb = POST, url = base_url self @ ''/v1/llm/'' @ model,
             json = Some (JObject [(''prompt'', JString prompt)]),
             headers = [(''Content-Type'', ''application/json'')], timeout = 60\<rparr>])"
  by (simp add: generate_def requests_post_def requests_request_def split: outcome.splits sum.splits)

lemma status_eq:
  "status srv self sent =
     ((case srv sent \<lparr>verb = GET, url = base_url self @ ''/v1/status'', json = None,
             headers = [], timeout = 10\<rparr> of
         ConnectionRefused \<Rightarrow> Inl ConnectionError
       | DNSFailure \<Rightarrow> Inl ConnectionError
       | TimeoutExpired \<Rightarrow> Inl Timeout
       | URLRefused e \<Rightarrow> Inl (URLError e)
       | RedirectsExceeded r \<Rightarrow> Inl (TooManyRedirects r)
       | Responded r \<Rightarrow> (case raise_for_status r of Inl e \<Rightarrow> Inl e | Inr u \<Rightarrow> response_json r)),
      sent @ [\<lparr>verb = GET, url = base_url self @ ''/v1/status'', json = None,
             headers = [], timeout = 10\<rparr>])"
  by (simp add: status_def requests_get_def requests_request_def split: outcome.splits sum.splits)

lemma raise_for_status_error:
  "400 \<le> status_code r \<Longrightarrow> status_code r < 600 \<Longrightarrow>
   raise_for_status r =
     Inl (HTTPError (str_int (status_code r)
                       @ (if status_code r < 500 then '' Client Error: '' else '' Server Error: '')
                       @ reason r @ '' for url: '' @ response_url r) r)"
  by (simp add: raise_for_status_def)

lemma raise_for_status_2xx:
  "200 \<le> status_code r \<Longrightarrow> status_code r < 300 \<Longrightarrow> raise_for_status r = Inr ()"
  by (simp add: raise_for_status_def)

lemma base_url_localhost: "base_url localhost = ''http://localhost:4020''"
  by (simp add: localhost_def HermesClient_init_def default_base_url_def rstrip_def)

lemma str_int_examples: "str_int 400 = ''400''" "str_int 502 = ''502''"
  by (simp_all add: str_int_def str_nat.simps digit_char_def)

subsection \<open>The requests on the wire\<close>

lemma traffic_after_snoc:
  "traffic_after w h (calls @ [q]) = snd (follow w max_redirects q (traffic_after w h calls))"
  by (induction calls arbitrary: h) simp_all

lemma traffic_Nil: "traffic w [] = []"
  by (simp add: traffic_def)

lemma traffic_snoc:
  "traffic w (calls @ [q]) = snd (follow w max_redirects q (traffic w calls))"
  by (simp add: traffic_def traffic_after_snoc)

lemma follow_direct:
  assumes "\<And>e. w h q \<noteq> Rejected e"
    and "\<And>r loc. w h q = Answered r loc \<Longrightarrow> redirect_target r loc = None"
  shows "snd (follow w n q h) = h @ [q]"
proof (cases "w h q")
  case (Rejected e)
  with assms(1) [of e] show ?thesis by simp
next
  case (Answered r loc)
  with assms(2) have "redirect_target r loc = None" by simp
  with Answered show ?thesis by (simp add: follow.simps)
qed (simp_all add: follow.simps)

subsection \<open>Stripping the trailing separators\<close>

lemma takeWhile_eq_replicate:
  "takeWhile (\<lambda>x. x = c) xs = replicate (length (takeWhile (\<lambda>x. x = c) xs)) c"
  by (induction xs) auto

lemma rstrip_single_decomp:
  "s = rstrip s [c] @ replicate (length (takeWhile (\<lambda>x. x = c) (rev s))) c"
proof -
  have "rev s = takeWhile (\<lambda>x. x = c) (rev s) @ dropWhile (\<lambda>x. x = c) (rev s)"
    by simp
  then have "s = rev (dropWhile (\<lambda>x. x = c) (rev s)) @ rev (takeWhile (\<lambda>x. x = c) (rev s))"
    by (metis rev_append rev_rev_ident)
  moreover have "rev (takeWhile (\<lambda>x. x = c) (rev s))
      = replicate (length (takeWhile (\<lambda>x. x = c) (rev s))) c"
    using takeWhile_eq_replicate [of c "rev s"] by (metis rev_replicate)
  ultimately show ?thesis
    by (simp add: rstrip_def)
qed

lemma rstrip_single_no_trailing: "rstrip s [c] \<noteq> t @ [c]"
proof
  assume "rstrip s [c] = t @ [c]"
  then have "dropWhile (\<lambda>x. x = c) (rev s) = c # rev t"
    by (simp add: rstrip_def rev_swap)
  then show False
    using hd_dropWhile [of "\<lambda>x. x = c" "rev s"] by simp
qed

section \<open>The properties of the client\<close>

text \<open>
  C1. When the service answers a generate call for a non-empty model and prompt with
  status 200 and the body \<^verbatim>\<open>{"result": X}\<close>, generate returns the decoded body itself,
  and its \<^verbatim>\<open>result\<close> field is the string \<open>X\<close>, character for character.
\<close>

theorem generate_returns_result_verbatim:
  assumes "model \<noteq> []" and "prompt \<noteq> []"
    and "srv sent \<lparr>verb = POST, url = base_url self @ ''/v1/llm/'' @ model,
             json = Some (JObject [(''prompt'', JString prompt)]),
             headers = [(''Content-Type'', ''application/json'')], timeout = 60\<rparr> = Responded r"
    and "status_code r = 200"
    and "body r = Some (JObject [(''result'', JString X)])"
  shows "\<exists>v. fst (generate srv self model prompt sent) = Inr v \<and> body r = Some v
           \<and> getitem v ''result'' = Inr (JString X)"
  using assms by (simp add: generate_eq raise_for_status_def response_json_def)

text \<open>An answer with blanks at both ends comes back with them.\<close>

theorem generate_returns_result_verbatim_witness:
  "fst (generate (answers 200 ''OK'' (Some (JObject [(''result'', JString '' Elixir is fun. '')])))
          localhost ''gemma'' ''hi'' [])
     = Inr (JObject [(''result'', JString '' Elixir is fun. '')])
   \<and> getitem (JObject [(''result'', JString '' Elixir is fun. '')]) ''result''
     = Inr (JString '' Elixir is fun. '')"
  using generate_returns_result_verbatim
    [of "''gemma''" "''hi''"
        "answers 200 ''OK'' (Some (JObject [(''result'', JString '' Elixir is fun. '')]))"
        "[]" localhost
        "\<lparr>status_code = 200, reason = ''OK'',
          response_url = ''http://localhost:4020/v1/llm/gemma'',
          body = Some (JObject [(''result'', JString '' Elixir is fun. '')])\<rparr>"
        "'' Elixir is fun. ''"]
  by (simp add: answers_def base_url_localhost)

text \<open>
  C2, as the claim states it, fails: \<^verbatim>\<open>raise_for_status\<close> raises for the codes 400 to
  599 only. A response with status 300 and the body \<^verbatim>\<open>{"error": "model not loaded"}\<close>
  is no error for generate or status: both return the decoded body as their result.
  And where an error is raised, at status 400 with the same body, its own text is the
  library's generic one, not the server's message.
\<close>

theorem non_2xx_error_body_counterexample:
  "fst (generate (answers 300 ''Multiple Choices''
                    (Some (JObject [(''error'', JString ''model not loaded'')])))
          localhost ''gemma'' ''hi'' [])
     = Inr (JObject [(''error'', JString ''model not loaded'')])
   \<and> fst (status (answers 300 ''Multiple Choices''
                    (Some (JObject [(''error'', JString ''model not loaded'')])))
          localhost [])
     = Inr (JObject [(''error'', JString ''model not loaded'')])
   \<and> fst (generate (answers 400 ''Bad Request''
                    (Some (JObject [(''error'', JString ''model not loaded'')])))
          localhost ''gemma'' ''hi'' [])
     = Inl (HTTPError ''400 Client Error: Bad Request for url: http://localhost:4020/v1/llm/gemma''
              \<lparr>status_code = 400, reason = ''Bad Request'',
                response_url = ''http://localhost:4020/v1/llm/gemma'',
                body = Some (JObject [(''error'', JString ''model not loaded'')])\<rparr>)"
  by (simp add: generate_eq status_eq answers_def raise_for_status_def response_json_def
        base_url_localhost str_int_examples)

text \<open>
  C2, amended. For a response with a status code from 400 to 599 whose body is the JSON
  \<^verbatim>\<open>{"error": X}\<close>, generate and status raise the same HTTPError. It carries the response:
  its status is the response's status code, and the server's message \<open>X\<close> is the
  \<^verbatim>\<open>error\<close> field of the body that the carried response decodes
  (\<^verbatim>\<open>e.response.json()['error']\<close>); the client itself does not read the body of an
  error response.
\<close>

theorem http_error_carries_status_and_body:
  assumes "400 \<le> status_code r" and "status_code r < 600"
    and "body r = Some (JObject [(''error'', JString X)])"
    and "srv sent \<lparr>verb = POST, url = base_url self @ ''/v1/llm/'' @ model,
             json = Some (JObject [(''prompt'', JString prompt)]),
             headers = [(''Content-Type'', ''application/json'')], timeout = 60\<rparr> = Responded r"
    and "srv' sent' \<lparr>verb = GET, url = base_url self' @ ''/v1/status'', json = None,
             headers = [], timeout = 10\<rparr> = Responded r"
  shows "\<exists>e. fst (generate srv self model prompt sent) = Inl e
           \<and> fst (status srv' self' sent') = Inl e
           \<and> exn_status e = Some (status_code r)
           \<and> exn_response e = Some r
           \<and> (\<exists>v. response_json r = Inr v \<and> getitem v ''error'' = Inr (JString X))"
  using assms by (simp add: generate_eq status_eq raise_for_status_error response_json_def)

text \<open>Status 400 with \<^verbatim>\<open>{"error": "model not loaded"}\<close>, for both operations.\<close>

theorem http_error_carries_status_and_body_witness:
  "\<exists>e. fst (generate (replies \<lparr>status_code = 400, reason = ''Bad Request'', response_url = ''http://localhost:4020/'',
                                body = Some (JObject [(''error'', JString ''model not loaded'')])\<rparr>)
             localhost ''gemma'' ''hi'' []) = Inl e
       \<and> fst (status (replies \<lparr>status_code = 400, reason = ''Bad Request'', response_url = ''http://localhost:4020/'',
                                body = Some (JObject [(''error'', JString ''model not loaded'')])\<rparr>)
             localhost []) = Inl e
       \<and> exn_status e = Some 400
       \<and> map_option body (exn_response e)
           = Some (Some (JObject [(''error'', JString ''model not loaded'')]))"
  using http_error_carries_status_and_body
    [of "\<lparr>status_code = 400, reason = ''Bad Request'', response_url = ''http://localhost:4020/'',
          body = Some (JObject [(''error'', JString ''model not loaded'')])\<rparr>"
        "''model not loaded''"
        "replies \<lparr>status_code = 400, reason = ''Bad Request'', response_url = ''http://localhost:4020/'',
                   body = Some (JObject [(''error'', JString ''model not loaded'')])\<rparr>"
        "[]" localhost "''gemma''" "''hi''"
        "replies \<lparr>status_code = 400, reason = ''Bad Request'', response_url = ''http://localhost:4020/'',
                   body = Some (JObject [(''error'', JString ''model not loaded'')])\<rparr>"
        "[]" localhost]
  by (auto simp add: replies_def)

text \<open>
  C3, as the claim states it, fails for the same reason: a response with status 300 whose
  body is the JSON object \<^verbatim>\<open>{}\<close>, without an \<^verbatim>\<open>error\<close> field, is returned by generate
  and by status as a normal result; no error is raised.
\<close>

theorem non_2xx_without_error_field_counterexample:
  "fst (generate (answers 300 ''Multiple Choices'' (Some (JObject []))) localhost ''gemma'' ''hi'' [])
     = Inr (JObject [])
   \<and> fst (status (answers 300 ''Multiple Choices'' (Some (JObject []))) localhost [])
     = Inr (JObject [])"
  by (simp add: generate_eq status_eq answers_def raise_for_status_def response_json_def)

text \<open>
  C3, amended. For a response with a status code from 400 to 599, whatever its body
  (not JSON, or JSON without an \<^verbatim>\<open>error\<close> field, or anything else), generate and status
  raise an HTTPError that carries the response, and its text is the non-empty generic
  one built from the status code, the reason and the URL of the response.
\<close>

theorem http_error_whatever_the_body:
  assumes "400 \<le> status_code r" and "status_code r < 600"
    and "srv sent \<lparr>verb = POST, url = base_url self @ ''/v1/llm/'' @ model,
             json = Some (JObject [(''prompt'', JString prompt)]),
             headers = [(''Content-Type'', ''application/json'')], timeout = 60\<rparr> = Responded r"
    and "srv' sent' \<lparr>verb = GET, url = base_url self' @ ''/v1/status'', json = None,
             headers = [], timeout = 10\<rparr> = Responded r"
  shows "\<exists>msg. fst (generate srv self model prompt sent) = Inl (HTTPError msg r)
           \<and> fst (status srv' self' sent') = Inl (HTTPError msg r)
           \<and> msg \<noteq> []
           \<and> msg = str_int (status_code r)
                     @ (if status_code r < 500 then '' Client Error: '' else '' Server Error: '')
                     @ reason r @ '' for url: '' @ response_url r"
  using assms by (simp add: generate_eq status_eq raise_for_status_error)

text \<open>Status 502 with a body that is not JSON.\<close>

theorem http_error_whatever_the_body_witness:
  "fst (generate (answers 502 ''Bad Gateway'' None) localhost ''gemma'' ''hi'' [])
     = Inl (HTTPError ''502 Server Error: Bad Gateway for url: http://localhost:4020/v1/llm/gemma''
              \<lparr>status_code = 502, reason = ''Bad Gateway'',
                response_url = ''http://localhost:4020/v1/llm/gemma'', body = None\<rparr>)"
  using http_error_whatever_the_body
    [of "\<lparr>status_code = 502, reason = ''Bad Gateway'',
          response_url = ''http://localhost:4020/v1/llm/gemma'', body = None\<rparr>"
        "answers 502 ''Bad Gateway'' None" "[]" localhost "''gemma''" "''hi''"
        "replies \<lparr>status_code = 502, reason = ''Bad Gateway'',
                   response_url = ''http://localhost:4020/v1/llm/gemma'', body = None\<rparr>"
        "[]" localhost]
  by (auto simp add: answers_def replies_def base_url_localhost str_int_examples)

text \<open>
  C4. The claim asks that generate report a response with a status code from 200 to 299
  and a JSON body without a \<^verbatim>\<open>result\<close> field as a failure, and the docstring of
  generate promises a dictionary with the key \<^verbatim>\<open>result\<close>. The code does neither:
  answered with status 200 and the body \<^verbatim>\<open>{}\<close>, the call \<^verbatim>\<open>generate("gemma", "hi")\<close>
  returns the empty dictionary as its result, and the caller's \<^verbatim>\<open>result['result']\<close>
  raises KeyError.
\<close>

theorem generate_returns_body_without_result:
  "fst (generate (answers 200 ''OK'' (Some (JObject []))) localhost ''gemma'' ''hi'' [])
     = Inr (JObject [])
   \<and> getitem (JObject []) ''result'' = Inl (KeyError ''result'')"
  by (simp add: generate_eq answers_def raise_for_status_def response_json_def)

text \<open>
  C5. When no response arrives for the request of generate or of status (connection
  refused, name resolution failed, timeout expired), the call raises an exception that
  carries no response and so no status code, after exactly one request. An expired
  timeout is one of the three cases and is treated like the other two.
\<close>

theorem transport_failure_has_no_status:
  assumes "srv sent \<lparr>verb = POST, url = base_url self @ ''/v1/llm/'' @ model,
             json = Some (JObject [(''prompt'', JString prompt)]),
             headers = [(''Content-Type'', ''application/json'')], timeout = 60\<rparr> = out"
    and "out = ConnectionRefused \<or> out = DNSFailure \<or> out = TimeoutExpired"
    and "srv' sent' \<lparr>verb = GET, url = base_url self' @ ''/v1/status'', json = None,
             headers = [], timeout = 10\<rparr> = out'"
    and "out' = ConnectionRefused \<or> out' = DNSFailure \<or> out' = TimeoutExpired"
  shows "\<exists>e e'. generate srv self model prompt sent = (Inl e, sent @ [\<lparr>verb = POST, url = base_url self @ ''/v1/llm/'' @ model,
             json = Some (JObject [(''prompt'', JString prompt)]),
             headers = [(''Content-Type'', ''application/json'')], timeout = 60\<rparr>])
           \<and> exn_response e = None \<and> exn_status e = None
           \<and> e = (if out = TimeoutExpired then Timeout else ConnectionError)
           \<and> status srv' self' sent' = (Inl e', sent' @ [\<lparr>verb = GET, url = base_url self' @ ''/v1/status'', json = None,
             headers = [], timeout = 10\<rparr>])
           \<and> exn_response e' = None \<and> exn_status e' = None
           \<and> e' = (if out' = TimeoutExpired then Timeout else ConnectionError)"
  using assms by (auto simp add: generate_eq status_eq)

text \<open>A service that never answers in time.\<close>

theorem transport_failure_has_no_status_witness:
  "generate never_answers localhost ''x'' ''y'' []
     = (Inl Timeout,
        [\<lparr>verb = POST, url = ''http://localhost:4020/v1/llm/x'',
          json = Some (JObject [(''prompt'', JString ''y'')]),
          headers = [(''Content-Type'', ''application/json'')], timeout = 60\<rparr>])
   \<and> status never_answers localhost []
     = (Inl Timeout,
        [\<lparr>verb = GET, url = ''http://localhost:4020/v1/status'', json = None,
          headers = [], timeout = 10\<rparr>])
   \<and> exn_status Timeout = None"
  using transport_failure_has_no_status
    [of never_answers "[]" localhost "''x''" "''y''" TimeoutExpired
        never_answers "[]" localhost TimeoutExpired]
  by (auto simp add: never_answers_def base_url_localhost)

text \<open>
  C6. For a non-empty model and prompt, generate makes exactly one request: a POST to
  the base address followed by \<^verbatim>\<open>/v1/llm/\<close> and the model, with the JSON payload
  \<^verbatim>\<open>{"prompt": prompt}\<close>, the header \<^verbatim>\<open>Content-Type: application/json\<close> and a timeout
  of 60 seconds, whatever the service does with it.
\<close>

theorem generate_issues_one_post:
  assumes "model \<noteq> []" and "prompt \<noteq> []"
  shows "snd (generate srv self model prompt sent) = sent @ [\<lparr>verb = POST, url = base_url self @ ''/v1/llm/'' @ model,
             json = Some (JObject [(''prompt'', JString prompt)]),
             headers = [(''Content-Type'', ''application/json'')], timeout = 60\<rparr>]"
  by (simp add: generate_eq)

text \<open>The request of \<^verbatim>\<open>generate("gemma", "hi")\<close> from the client of the example.\<close>

theorem generate_issues_one_post_witness:
  "snd (generate never_answers (fst (HermesClient_init ''http://localhost:4020/'' [])) ''gemma'' ''hi'' [])
     = [\<lparr>verb = POST, url = ''http://localhost:4020/v1/llm/gemma'',
         json = Some (JObject [(''prompt'', JString ''hi'')]),
         headers = [(''Content-Type'', ''application/json'')], timeout = 60\<rparr>]"
  using generate_issues_one_post
    [of "''gemma''" "''hi''" never_answers "fst (HermesClient_init ''http://localhost:4020/'' [])" "[]"]
  by (simp add: HermesClient_init_def rstrip_def)

text \<open>
  C7. Every call of status makes a GET request to the base address followed by
  \<^verbatim>\<open>/v1/status\<close>, with a timeout of 10 seconds, no payload and no headers of its own.
  When the response has a status code from 200 to 299 and a JSON body, status returns
  the decoded body as it is, whatever the \<^verbatim>\<open>memory\<close> field or any other field holds.
\<close>

theorem status_issues_get_and_returns_body:
  "snd (status srv self sent) = sent @ [\<lparr>verb = GET, url = base_url self @ ''/v1/status'', json = None,
             headers = [], timeout = 10\<rparr>]
   \<and> (\<forall>r v. srv sent \<lparr>verb = GET, url = base_url self @ ''/v1/status'', json = None,
             headers = [], timeout = 10\<rparr> = Responded r
              \<and> 200 \<le> status_code r \<and> status_code r < 300 \<and> body r = Some v
            \<longrightarrow> fst (status srv self sent) = Inr v)"
  by (simp add: status_eq raise_for_status_2xx response_json_def)

text \<open>
  The status document \<^verbatim>\<open>{"status":"ok","schedulers":2,"memory":{"total":1048576}}\<close>
  comes back whole.
\<close>

theorem status_issues_get_and_returns_body_witness:
  "status (answers 200 ''OK''
             (Some (JObject [(''status'', JString ''ok''), (''schedulers'', JInt 2),
                             (''memory'', JObject [(''total'', JInt 1048576)])])))
          localhost []
     = (Inr (JObject [(''status'', JString ''ok''), (''schedulers'', JInt 2),
                      (''memory'', JObject [(''total'', JInt 1048576)])]),
        [\<lparr>verb = GET, url = ''http://localhost:4020/v1/status'', json = None,
          headers = [], timeout = 10\<rparr>])"
  using status_issues_get_and_returns_body
    [of "answers 200 ''OK''
           (Some (JObject [(''status'', JString ''ok''), (''schedulers'', JInt 2),
                           (''memory'', JObject [(''total'', JInt 1048576)])]))"
        localhost "[]"]
  by (simp add: answers_def base_url_localhost prod_eq_iff)

text \<open>
  C8, as the claim states it, fails: the client leaves the library to follow redirects.
  On a network where \<^verbatim>\<open>/v1/status\<close> answers 302 with a \<^verbatim>\<open>Location\<close> header, one call
  of status is one call of the library and two HTTP requests on the wire, the second to
  the new location, whose answer the call returns.
\<close>

theorem one_call_two_requests_counterexample:
  "status (library moved_temporarily) localhost []
     = (Inr (JObject [(''status'', JString ''ok'')]),
        [\<lparr>verb = GET, url = ''http://localhost:4020/v1/status'', json = None,
          headers = [], timeout = 10\<rparr>])
   \<and> traffic moved_temporarily (snd (status (library moved_temporarily) localhost []))
     = [\<lparr>verb = GET, url = ''http://localhost:4020/v1/status'', json = None,
         headers = [], timeout = 10\<rparr>,
        \<lparr>verb = GET, url = ''http://localhost:4020/v2/status'', json = None,
         headers = [], timeout = 10\<rparr>]"
  by (simp add: status_eq library_def traffic_def moved_temporarily_def base_url_localhost
        follow.simps max_redirects_def redirect_target_def redirected_def rebuild_method_def
        raise_for_status_def response_json_def)

text \<open>
  C8, amended. A call of generate and a call of status each make exactly one call of the
  library, with the request of the operation, whatever the outcome: the client retries
  nothing. Two calls of status in a row make the same call twice, and the result of the
  second is read from the outcome of the second call alone: nothing of the first is
  kept. On the wire, the call is exactly one HTTP request whenever the library sends the
  request and its answer is not a redirect that the library follows.
\<close>

theorem one_library_call_and_no_cache:
  "generate srv self model prompt sent
     = ((case srv sent \<lparr>verb = POST, url = base_url self @ ''/v1/llm/'' @ model,
             json = Some (JObject [(''prompt'', JString prompt)]),
             headers = [(''Content-Type'', ''application/json'')], timeout = 60\<rparr> of
           ConnectionRefused \<Rightarrow> Inl ConnectionError
         | DNSFailure \<Rightarrow> Inl ConnectionError
         | TimeoutExpired \<Rightarrow> Inl Timeout
         | URLRefused e \<Rightarrow> Inl (URLError e)
         | RedirectsExceeded r \<Rightarrow> Inl (TooManyRedirects r)
         | Responded r \<Rightarrow> (case raise_for_status r of Inl e \<Rightarrow> Inl e | Inr u \<Rightarrow> response_json r)),
        sent @ [\<lparr>verb = POST, url = base_url self @ ''/v1/llm/'' @ model,
             json = Some (JObject [(''prompt'', JString prompt)]),
             headers = [(''Content-Type'', ''application/json'')], timeout = 60\<rparr>])
   \<and> snd (status srv self sent) = sent @ [\<lparr>verb = GET, url = base_url self @ ''/v1/status'', json = None,
             headers = [], timeout = 10\<rparr>]
   \<and> status srv self (snd (status srv self sent))
     = ((case srv (sent @ [\<lparr>verb = GET, url = base_url self @ ''/v1/status'', json = None,
             headers = [], timeout = 10\<rparr>]) \<lparr>verb = GET, url = base_url self @ ''/v1/status'', json = None,
             headers = [], timeout = 10\<rparr> of
           ConnectionRefused \<Rightarrow> Inl ConnectionError
         | DNSFailure \<Rightarrow> Inl ConnectionError
         | TimeoutExpired \<Rightarrow> Inl Timeout
         | URLRefused e \<Rightarrow> Inl (URLError e)
         | RedirectsExceeded r \<Rightarrow> Inl (TooManyRedirects r)
         | Responded r \<Rightarrow> (case raise_for_status r of Inl e \<Rightarrow> Inl e | Inr u \<Rightarrow> response_json r)),
        sent @ [\<lparr>verb = GET, url = base_url self @ ''/v1/status'', json = None,
             headers = [], timeout = 10\<rparr>, \<lparr>verb = GET, url = base_url self @ ''/v1/status'', json = None,
             headers = [], timeout = 10\<rparr>])
   \<and> ((\<forall>e. w (traffic w sent) \<lparr>verb = POST, url = base_url self @ ''/v1/llm/'' @ model,
             json = Some (JObject [(''prompt'', JString prompt)]),
             headers = [(''Content-Type'', ''application/json'')], timeout = 60\<rparr> \<noteq> Rejected e)
        \<and> (\<forall>r loc. w (traffic w sent) \<lparr>verb = POST, url = base_url self @ ''/v1/llm/'' @ model,
             json = Some (JObject [(''prompt'', JString prompt)]),
             headers = [(''Content-Type'', ''application/json'')], timeout = 60\<rparr> = Answered r loc
                     \<longrightarrow> redirect_target r loc = None)
      \<longrightarrow> traffic w (snd (generate (library w) self model prompt sent))
            = traffic w sent @ [\<lparr>verb = POST, url = base_url self @ ''/v1/llm/'' @ model,
             json = Some (JObject [(''prompt'', JString prompt)]),
             headers = [(''Content-Type'', ''application/json'')], timeout = 60\<rparr>])
   \<and> ((\<forall>e. w (traffic w sent) \<lparr>verb = GET, url = base_url self @ ''/v1/status'', json = None,
             headers = [], timeout = 10\<rparr> \<noteq> Rejected e)
        \<and> (\<forall>r loc. w (traffic w sent) \<lparr>verb = GET, url = base_url self @ ''/v1/status'', json = None,
             headers = [], timeout = 10\<rparr> = Answered r loc
                     \<longrightarrow> redirect_target r loc = None)
      \<longrightarrow> traffic w (snd (status (library w) self sent))
            = traffic w sent @ [\<lparr>verb = GET, url = base_url self @ ''/v1/status'', json = None,
             headers = [], timeout = 10\<rparr>])"
proof -
  have wire: "traffic w (sent @ [q]) = traffic w sent @ [q]"
    if "\<forall>e. w (traffic w sent) q \<noteq> Rejected e"
      and "\<forall>r loc. w (traffic w sent) q = Answered r loc \<longrightarrow> redirect_target r loc = None"
    for q
    using that by (simp add: traffic_snoc follow_direct)
  show ?thesis
    by (simp add: generate_eq status_eq wire)
qed

text \<open>
  Against a service whose second answer differs from its first, the second call of
  status returns the second answer; and on the network of the counterexample, whose
  other URLs answer at once, a call of generate is one HTTP request.
\<close>

theorem one_library_call_and_no_cache_witness:
  "fst (status (answers_in_turn (JString ''first'') (JString ''second'')) localhost [])
     = Inr (JString ''first'')
   \<and> status (answers_in_turn (JString ''first'') (JString ''second'')) localhost
        (snd (status (answers_in_turn (JString ''first'') (JString ''second'')) localhost []))
     = (Inr (JString ''second''),
        [\<lparr>verb = GET, url = ''http://localhost:4020/v1/status'', json = None,
          headers = [], timeout = 10\<rparr>,
         \<lparr>verb = GET, url = ''http://localhost:4020/v1/status'', json = None,
          headers = [], timeout = 10\<rparr>])
   \<and> traffic moved_temporarily
        (snd (generate (library moved_temporarily) localhost ''gemma'' ''hi'' []))
     = [\<lparr>verb = POST, url = ''http://localhost:4020/v1/llm/gemma'',
         json = Some (JObject [(''prompt'', JString ''hi'')]),
         headers = [(''Content-Type'', ''application/json'')], timeout = 60\<rparr>]"
  using one_library_call_and_no_cache
    [of "answers_in_turn (JString ''first'') (JString ''second'')" localhost "''gemma''" "''hi''"
        "[]" moved_temporarily]
    one_library_call_and_no_cache
    [of "library moved_temporarily" localhost "''gemma''" "''hi''" "[]" moved_temporarily]
  by (simp add: status_eq answers_in_turn_def raise_for_status_def response_json_def
        base_url_localhost moved_temporarily_def redirect_target_def traffic_Nil)

text \<open>
  C9. For every base address, the client that \<^verbatim>\<open>__init__\<close> builds stores the address
  without its trailing separators: the given address is the stored one followed by
  slashes only, and the stored one does not end with a slash. Building the client makes
  no request.
\<close>

theorem init_strips_trailing_separators:
  "base_url (fst (HermesClient_init b sent)) = rstrip b ''/''
   \<and> (\<exists>k. b = base_url (fst (HermesClient_init b sent)) @ replicate k CHR ''/'')
   \<and> \<not> (\<exists>t. base_url (fst (HermesClient_init b sent)) = t @ ''/'')
   \<and> snd (HermesClient_init b sent) = sent"
  using rstrip_single_decomp [of b "CHR ''/''"] rstrip_single_no_trailing [of b "CHR ''/''"]
  by (auto simp add: HermesClient_init_def)

text \<open>Two trailing separators are both removed; one inside the address stays.\<close>

theorem init_strips_trailing_separators_witness:
  "HermesClient_init ''http://localhost:4020/api//'' []
     = (\<lparr>base_url = ''http://localhost:4020/api''\<rparr>, [])"
  using init_strips_trailing_separators [of "''http://localhost:4020/api//''" "[]"]
  by (simp add: HermesClient_init_def rstrip_def)

text \<open>
  C10. For every model string, empty or not, the URL of the request of generate is the
  base address, \<^verbatim>\<open>/v1/llm/\<close> and the model's characters unchanged. An empty model gives
  the URL that ends in \<^verbatim>\<open>/v1/llm/\<close>, and every \<^verbatim>\<open>/\<close> of the model is one more
  separator in the URL.
\<close>

theorem model_interpolated_verbatim:
  "map url (snd (generate srv self model prompt sent))
     = map url sent @ [base_url self @ ''/v1/llm/'' @ model]
   \<and> map verb (snd (generate srv self model prompt sent)) = map verb sent @ [POST]
   \<and> map url (snd (generate srv self [] prompt sent))
     = map url sent @ [base_url self @ ''/v1/llm/'']
   \<and> count_list (url (last (snd (generate srv self model prompt sent)))) CHR ''/''
     = count_list (base_url self) CHR ''/'' + 3 + count_list model CHR ''/''"
  by (simp add: generate_eq)

text \<open>A model that climbs out of \<^verbatim>\<open>/v1/llm/\<close>, and the empty model.\<close>

theorem model_interpolated_verbatim_witness:
  "map url (snd (generate never_answers localhost ''../status?x=1'' ''hi'' []))
     = [''http://localhost:4020/v1/llm/../status?x=1'']
   \<and> map url (snd (generate never_answers localhost [] ''hi'' []))
     = [''http://localhost:4020/v1/llm/'']"
  using model_interpolated_verbatim [of never_answers localhost "''../status?x=1''" "''hi''" "[]"]
    model_interpolated_verbatim [of never_answers localhost "[]" "''hi''" "[]"]
  by (simp add: base_url_localhost)

end
